theory Spec2Isabelle
  imports Complex_Main
begin

section \<open>JavaScript values as the engine reads them\<close>

text \<open>
  The attribute bag of a product is declared \<^verbatim>\<open>Record<string, any>\<close>, and its values
  arrive from \<^verbatim>\<open>JSON.parse\<close> (editor, local storage) or from spreadsheet cells, so the
  model carries the JSON-shaped part of the JavaScript value universe.

  Numbers: a finite double is represented by the rational it denotes; rounding and overflow of
  double arithmetic are outside the model. Zero is unsigned (no operation used by the program
  tells \<^verbatim>\<open>-0\<close> from \<^verbatim>\<open>0\<close>).

  Strings: a JavaScript string is represented by its UTF-8 bytes (\<^typ>\<open>string\<close>).

  Objects: a plain object is the list of its members in insertion order. No member is named
  \<^verbatim>\<open>toString\<close> or \<^verbatim>\<open>__proto__\<close> (such a member would change how the object is converted
  and inherited from; none of the keys the program writes or reads is one of them).
\<close>

datatype jsnum = NaN | PInf | NInf | Fin rat

datatype jsval =
    Undefined
  | Null
  | Bool bool
  | Num jsnum
  | Str string
  | Arr "jsval list"
  | Obj "(string \<times> jsval) list"

type_synonym obj = "(string \<times> jsval) list"

datatype exn = TypeError

text \<open>Property read \<^verbatim>\<open>o[k]\<close> / \<^verbatim>\<open>o.k\<close> on a plain object: a missing key reads as \<^verbatim>\<open>undefined\<close>.\<close>

definition getProp :: "obj \<Rightarrow> string \<Rightarrow> jsval" where
  "getProp ob k = (case map_of ob k of None \<Rightarrow> Undefined | Some v \<Rightarrow> v)"

text \<open>Property write \<^verbatim>\<open>o[k] = v\<close>: an existing key keeps its place, a new key is appended.\<close>

fun setProp :: "string \<Rightarrow> jsval \<Rightarrow> obj \<Rightarrow> obj" where
  "setProp k v [] = [(k, v)]"
| "setProp k v ((k', v') # ob) = (if k = k' then (k, v) # ob else (k', v') # setProp k v ob)"

text \<open>ToBoolean.\<close>

fun truthy :: "jsval \<Rightarrow> bool" where
  "truthy Undefined = False"
| "truthy Null = False"
| "truthy (Bool b) = b"
| "truthy (Num NaN) = False"
| "truthy (Num (Fin r)) = (r \<noteq> 0)"
| "truthy (Num PInf) = True"
| "truthy (Num NInf) = True"
| "truthy (Str s) = (s \<noteq> [])"
| "truthy (Arr xs) = True"
| "truthy (Obj kvs) = True"

text \<open>\<^verbatim>\<open>a || b\<close>.\<close>

definition js_or :: "jsval \<Rightarrow> jsval \<Rightarrow> jsval" where
  "js_or a b = (if truthy a then a else b)"

text \<open>
  \<^verbatim>\<open>a === b\<close>. Arrays and objects compare by reference; the two operands of every comparison in
  the program belong to two different products (or to a product and a literal), which never share
  an object, so two arrays or two objects are never strictly equal here.
\<close>

fun strict_eq :: "jsval \<Rightarrow> jsval \<Rightarrow> bool" where
  "strict_eq Undefined b = (b = Undefined)"
| "strict_eq Null b = (b = Null)"
| "strict_eq (Bool x) b = (b = Bool x)"
| "strict_eq (Num x) b = (x \<noteq> NaN \<and> b = Num x)"
| "strict_eq (Str x) b = (b = Str x)"
| "strict_eq (Arr xs) b = False"
| "strict_eq (Obj kvs) b = False"

text \<open>SameValueZero, the comparison of \<^verbatim>\<open>Array.prototype.includes\<close>: as \<^verbatim>\<open>===\<close>, but NaN equals NaN.\<close>

definition sameValueZero :: "jsval \<Rightarrow> jsval \<Rightarrow> bool" where
  "sameValueZero a b = (strict_eq a b \<or> (a = Num NaN \<and> b = Num NaN))"

text \<open>
  ToString. The digits of a finite number (\<^verbatim>\<open>Number::toString\<close>, the shortest decimal that
  reads back as the same double) belong to the runtime: the model takes them as the parameter
  \<open>fmt\<close>. An array prints its elements joined by commas, \<^verbatim>\<open>null\<close> and \<^verbatim>\<open>undefined\<close>
  elements as the empty string.
\<close>

fun intercalate :: "string \<Rightarrow> string list \<Rightarrow> string" where
  "intercalate sep [] = []"
| "intercalate sep [x] = x"
| "intercalate sep (x # y # ys) = x @ sep @ intercalate sep (y # ys)"

fun toString :: "(rat \<Rightarrow> string) \<Rightarrow> jsval \<Rightarrow> string" where
  "toString fmt Undefined = ''undefined''"
| "toString fmt Null = ''null''"
| "toString fmt (Bool b) = (if b then ''true'' else ''false'')"
| "toString fmt (Num NaN) = ''NaN''"
| "toString fmt (Num PInf) = ''Infinity''"
| "toString fmt (Num NInf) = ''-Infinity''"
| "toString fmt (Num (Fin r)) = fmt r"
| "toString fmt (Str s) = s"
| "toString fmt (Arr xs) =
     intercalate '',''
       (map (\<lambda>x. if x = Undefined \<or> x = Null then [] else toString fmt x) xs)"
| "toString fmt (Obj kvs) = ''[object Object]''"

text \<open>\<^verbatim>\<open>Array.prototype.join(sep)\<close>.\<close>

definition js_join :: "(rat \<Rightarrow> string) \<Rightarrow> string \<Rightarrow> jsval list \<Rightarrow> string" where
  "js_join fmt sep xs =
     intercalate sep (map (\<lambda>x. if x = Undefined \<or> x = Null then [] else toString fmt x) xs)"

text \<open>ToPrimitive on JSON-shaped values: an array or plain object becomes its string.\<close>

fun toPrimitive :: "(rat \<Rightarrow> string) \<Rightarrow> jsval \<Rightarrow> jsval" where
  "toPrimitive fmt (Arr xs) = Str (toString fmt (Arr xs))"
| "toPrimitive fmt (Obj kvs) = Str (toString fmt (Obj kvs))"
| "toPrimitive fmt v = v"

subsection \<open>Numbers\<close>

text \<open>Addition of two Number values.\<close>

fun num_add :: "jsnum \<Rightarrow> jsnum \<Rightarrow> jsnum" where
  "num_add NaN y = NaN"
| "num_add x NaN = NaN"
| "num_add (Fin a) (Fin b) = Fin (a + b)"
| "num_add (Fin a) PInf = PInf"
| "num_add (Fin a) NInf = NInf"
| "num_add PInf (Fin b) = PInf"
| "num_add NInf (Fin b) = NInf"
| "num_add PInf PInf = PInf"
| "num_add NInf NInf = NInf"
| "num_add PInf NInf = NaN"
| "num_add NInf PInf = NaN"

text \<open>\<^verbatim>\<open>x < y\<close> on two Number values: false as soon as one of them is NaN.\<close>

fun num_lt :: "jsnum \<Rightarrow> jsnum \<Rightarrow> bool" where
  "num_lt NaN y = False"
| "num_lt x NaN = False"
| "num_lt (Fin a) (Fin b) = (a < b)"
| "num_lt x PInf = (x \<noteq> PInf)"
| "num_lt PInf y = False"
| "num_lt NInf y = (y \<noteq> NInf)"
| "num_lt x NInf = False"

fun num_neg :: "jsnum \<Rightarrow> jsnum" where
  "num_neg NaN = NaN"
| "num_neg PInf = NInf"
| "num_neg NInf = PInf"
| "num_neg (Fin r) = Fin (- r)"

subsection \<open>Strings\<close>

text \<open>
  The white space and line terminator code points that \<^verbatim>\<open>String.prototype.trim\<close> and the
  string-to-number conversion strip, each as its UTF-8 bytes: U+0009..U+000D, U+0020, U+00A0,
  U+1680, U+2000..U+200A, U+2028, U+2029, U+202F, U+205F, U+3000, U+FEFF.
\<close>

definition whiteSpace :: "string list" where
  "whiteSpace =
     [[CHR 0x09], [CHR 0x0A], [CHR 0x0B], [CHR 0x0C], [CHR 0x0D], [CHR 0x20],
      [CHR 0xC2, CHR 0xA0],
      [CHR 0xE1, CHR 0x9A, CHR 0x80],
      [CHR 0xE2, CHR 0x80, CHR 0x80], [CHR 0xE2, CHR 0x80, CHR 0x81],
      [CHR 0xE2, CHR 0x80, CHR 0x82], [CHR 0xE2, CHR 0x80, CHR 0x83],
      [CHR 0xE2, CHR 0x80, CHR 0x84], [CHR 0xE2, CHR 0x80, CHR 0x85],
      [CHR 0xE2, CHR 0x80, CHR 0x86], [CHR 0xE2, CHR 0x80, CHR 0x87],
      [CHR 0xE2, CHR 0x80, CHR 0x88], [CHR 0xE2, CHR 0x80, CHR 0x89],
      [CHR 0xE2, CHR 0x80, CHR 0x8A],
      [CHR 0xE2, CHR 0x80, CHR 0xA8], [CHR 0xE2, CHR 0x80, CHR 0xA9],
      [CHR 0xE2, CHR 0x80, CHR 0xAF],
      [CHR 0xE2, CHR 0x81, CHR 0x9F],
      [CHR 0xE3, CHR 0x80, CHR 0x80],
      [CHR 0xEF, CHR 0xBB, CHR 0xBF]]"

text \<open>The number of bytes of the sequence of \<open>ws\<close> that \<open>s\<close> starts with; 0 when there is none.\<close>

definition headLen :: "string list \<Rightarrow> string \<Rightarrow> nat" where
  "headLen ws s =
     (case find (\<lambda>w. w \<noteq> [] \<and> take (length w) s = w) ws of
        None \<Rightarrow> 0
      | Some w \<Rightarrow> length w)"

function stripHead :: "string list \<Rightarrow> string \<Rightarrow> string" where
  "stripHead ws s = (if headLen ws s = 0 then s else stripHead ws (drop (headLen ws s) s))"
  by pat_completeness auto
termination
proof (relation "measure (\<lambda>(ws, s). length s)")
  fix ws :: "string list" and s :: string
  assume h: "headLen ws s \<noteq> 0"
  then obtain w where w: "find (\<lambda>w. w \<noteq> [] \<and> take (length w) s = w) ws = Some w"
    by (auto simp: headLen_def split: option.splits)
  then have "w \<noteq> []" and "take (length w) s = w"
    by (auto simp: find_Some_iff)
  then have "s \<noteq> []" by auto
  with h show "((ws, drop (headLen ws s) s), (ws, s)) \<in> measure (\<lambda>(ws, s). length s)"
    by simp
qed simp

definition trim :: "string \<Rightarrow> string" where
  "trim s = rev (stripHead (map rev whiteSpace) (rev (stripHead whiteSpace s)))"

text \<open>\<^verbatim>\<open>s.split(d)\<close> for a one-character separator.\<close>

fun splitOn :: "char \<Rightarrow> string \<Rightarrow> string list" where
  "splitOn d [] = [[]]"
| "splitOn d (c # cs) =
     (if c = d then [] # splitOn d cs
      else (case splitOn d cs of w # ws \<Rightarrow> (c # w) # ws | [] \<Rightarrow> [[c]]))"

text \<open>\<^verbatim>\<open>hay.includes(needle)\<close> on two strings: \<open>needle\<close> occurs in \<open>hay\<close>.\<close>

fun isSubstring :: "string \<Rightarrow> string \<Rightarrow> bool" where
  "isSubstring needle [] = (needle = [])"
| "isSubstring needle (h # hs) =
     (take (length needle) (h # hs) = needle \<or> isSubstring needle hs)"

text \<open>
  \<^verbatim>\<open>a < b\<close> on two strings compares UTF-16 code units. On the UTF-8 bytes that is the order
  of the first byte that differs, except that a lead byte \<open>F0\<close> to \<open>F4\<close> (a character beyond
  U+FFFF, a surrogate pair in UTF-16) sorts between \<open>ED\<close> and \<open>EE\<close>.
\<close>

definition unitRank :: "char \<Rightarrow> nat" where
  "unitRank c =
     (let b = (of_char c :: nat) in if 240 \<le> b then 237 * 16 + 8 + (b - 240) else b * 16)"

fun str_lt :: "string \<Rightarrow> string \<Rightarrow> bool" where
  "str_lt [] [] = False"
| "str_lt [] (y # ys) = True"
| "str_lt (x # xs) [] = False"
| "str_lt (x # xs) (y # ys) = (if x = y then str_lt xs ys else unitRank x < unitRank y)"

subsection \<open>String to number\<close>

text \<open>
  \<^verbatim>\<open>Number(s)\<close> on a string follows the StringNumericLiteral grammar: surrounding white space
  is dropped, the empty string is 0, then either a radix literal (\<^verbatim>\<open>0x\<close>, \<^verbatim>\<open>0o\<close>, \<^verbatim>\<open>0b\<close>,
  unsigned) or an optionally signed decimal literal or \<^verbatim>\<open>Infinity\<close>; anything else is NaN.
\<close>

definition digitOf :: "char \<Rightarrow> nat option" where
  "digitOf c =
     (let n = (of_char c :: nat) in
      if 48 \<le> n \<and> n \<le> 57 then Some (n - 48)
      else if 97 \<le> n \<and> n \<le> 102 then Some (n - 87)
      else if 65 \<le> n \<and> n \<le> 70 then Some (n - 55)
      else None)"

definition isDigitIn :: "nat \<Rightarrow> char \<Rightarrow> bool" where
  "isDigitIn b c = (case digitOf c of None \<Rightarrow> False | Some d \<Rightarrow> d < b)"

definition digitsValue :: "nat \<Rightarrow> string \<Rightarrow> nat" where
  "digitsValue b ds = foldl (\<lambda>a c. b * a + (case digitOf c of None \<Rightarrow> 0 | Some d \<Rightarrow> d)) 0 ds"

definition radixLiteral :: "nat \<Rightarrow> string \<Rightarrow> jsnum" where
  "radixLiteral b ds =
     (if ds \<noteq> [] \<and> list_all (isDigitIn b) ds then Fin (of_nat (digitsValue b ds)) else NaN)"

definition pow10 :: "int \<Rightarrow> rat" where
  "pow10 e = (if 0 \<le> e then 10 ^ nat e else 1 / 10 ^ nat (- e))"

definition exponentPart :: "string \<Rightarrow> int option" where
  "exponentPart s =
     (case s of
        [] \<Rightarrow> Some 0
      | c # cs \<Rightarrow>
          if c = CHR ''e'' \<or> c = CHR ''E'' then
            (let neg = (cs \<noteq> [] \<and> hd cs = CHR ''-'');
                 ds = (if cs \<noteq> [] \<and> (hd cs = CHR ''+'' \<or> hd cs = CHR ''-'') then tl cs else cs)
             in if ds \<noteq> [] \<and> list_all (isDigitIn 10) ds
                then Some (if neg then - int (digitsValue 10 ds) else int (digitsValue 10 ds))
                else None)
          else None)"

definition decimalLiteral :: "string \<Rightarrow> jsnum" where
  "decimalLiteral s =
     (if s = ''Infinity'' then PInf
      else
        let ip = takeWhile (isDigitIn 10) s;
            r1 = dropWhile (isDigitIn 10) s;
            dot = (r1 \<noteq> [] \<and> hd r1 = CHR ''.'');
            fp = (if dot then takeWhile (isDigitIn 10) (tl r1) else []);
            r2 = (if dot then dropWhile (isDigitIn 10) (tl r1) else r1)
        in if ip = [] \<and> fp = [] then NaN
           else (case exponentPart r2 of
                   None \<Rightarrow> NaN
                 | Some e \<Rightarrow> Fin (of_nat (digitsValue 10 (ip @ fp)) * pow10 (e - int (length fp)))))"

definition stringToNumber :: "string \<Rightarrow> jsnum" where
  "stringToNumber s =
     (let t = trim s in
      if t = [] then Fin 0
      else if take 2 t = ''0x'' \<or> take 2 t = ''0X'' then radixLiteral 16 (drop 2 t)
      else if take 2 t = ''0o'' \<or> take 2 t = ''0O'' then radixLiteral 8 (drop 2 t)
      else if take 2 t = ''0b'' \<or> take 2 t = ''0B'' then radixLiteral 2 (drop 2 t)
      else if hd t = CHR ''+'' then decimalLiteral (tl t)
      else if hd t = CHR ''-'' then num_neg (decimalLiteral (tl t))
      else decimalLiteral t)"

text \<open>ToNumber.\<close>

fun toNumber :: "(rat \<Rightarrow> string) \<Rightarrow> jsval \<Rightarrow> jsnum" where
  "toNumber fmt Undefined = NaN"
| "toNumber fmt Null = Fin 0"
| "toNumber fmt (Bool b) = (if b then Fin 1 else Fin 0)"
| "toNumber fmt (Num n) = n"
| "toNumber fmt (Str s) = stringToNumber s"
| "toNumber fmt (Arr xs) = stringToNumber (toString fmt (Arr xs))"
| "toNumber fmt (Obj kvs) = stringToNumber (toString fmt (Obj kvs))"

subsection \<open>Operators\<close>

definition isStr :: "jsval \<Rightarrow> bool" where
  "isStr v = (case v of Str s \<Rightarrow> True | _ \<Rightarrow> False)"

text \<open>\<^verbatim>\<open>a + b\<close>: concatenation as soon as one primitive is a string, numeric addition otherwise.\<close>

definition js_add :: "(rat \<Rightarrow> string) \<Rightarrow> jsval \<Rightarrow> jsval \<Rightarrow> jsval" where
  "js_add fmt a b =
     (let pa = toPrimitive fmt a; pb = toPrimitive fmt b in
      if isStr pa \<or> isStr pb then Str (toString fmt pa @ toString fmt pb)
      else Num (num_add (toNumber fmt pa) (toNumber fmt pb)))"

text \<open>\<^verbatim>\<open>a < b\<close>: two strings compare as strings, anything else as numbers.\<close>

definition js_lt :: "(rat \<Rightarrow> string) \<Rightarrow> jsval \<Rightarrow> jsval \<Rightarrow> bool" where
  "js_lt fmt a b =
     (case (toPrimitive fmt a, toPrimitive fmt b) of
        (Str s, Str t) \<Rightarrow> str_lt s t
      | (pa, pb) \<Rightarrow> num_lt (toNumber fmt pa) (toNumber fmt pb))"

text \<open>
  The method call \<^verbatim>\<open>recv.includes(x)\<close>: \<^verbatim>\<open>Array.prototype.includes\<close> on an array,
  \<^verbatim>\<open>String.prototype.includes\<close> (a substring search for the string of \<open>x\<close>) on a string; any other
  receiver has no such method and the call throws.
\<close>

fun js_includes :: "(rat \<Rightarrow> string) \<Rightarrow> jsval \<Rightarrow> jsval \<Rightarrow> exn + bool" where
  "js_includes fmt (Arr xs) x = Inr (list_ex (\<lambda>y. sameValueZero y x) xs)"
| "js_includes fmt (Str s) x = Inr (isSubstring (toString fmt x) s)"
| "js_includes fmt v x = Inl TypeError"

text \<open>
  The optional call \<^verbatim>\<open>recv?.join(sep)\<close>: \<^verbatim>\<open>undefined\<close> on a nullish receiver, the joined string
  on an array; any other receiver has no \<^verbatim>\<open>join\<close> and the call throws.
\<close>

fun js_optJoin :: "(rat \<Rightarrow> string) \<Rightarrow> jsval \<Rightarrow> string \<Rightarrow> exn + jsval" where
  "js_optJoin fmt Undefined sep = Inr Undefined"
| "js_optJoin fmt Null sep = Inr Undefined"
| "js_optJoin fmt (Arr xs) sep = Inr (Str (js_join fmt sep xs))"
| "js_optJoin fmt v sep = Inl TypeError"

text \<open>The method call \<^verbatim>\<open>recv.join(sep)\<close>: only an array has the method.\<close>

fun js_callJoin :: "(rat \<Rightarrow> string) \<Rightarrow> jsval \<Rightarrow> string \<Rightarrow> exn + string" where
  "js_callJoin fmt (Arr xs) sep = Inr (js_join fmt sep xs)"
| "js_callJoin fmt v sep = Inl TypeError"

section \<open>Types\<close>

datatype Category = CPU | Motherboard | GPU | RAM | Storage | PSU | Case | Cooler

definition CATEGORIES :: "Category list" where
  "CATEGORIES = [CPU, Motherboard, GPU, RAM, Storage, PSU, Case, Cooler]"

fun categoryName :: "Category \<Rightarrow> string" where
  "categoryName CPU = ''CPU''"
| "categoryName Motherboard = ''Motherboard''"
| "categoryName GPU = ''GPU''"
| "categoryName RAM = ''RAM''"
| "categoryName Storage = ''Storage''"
| "categoryName PSU = ''PSU''"
| "categoryName Case = ''Case''"
| "categoryName Cooler = ''Cooler''"

text \<open>The type \<^verbatim>\<open>Product\<close>; the field \<^verbatim>\<open>id\<close> is \<open>id_p\<close> here.\<close>

record Product =
  id_p :: string
  name :: string
  category :: Category
  price :: jsnum
  stock :: jsnum
  attributes :: obj

text \<open>\<^verbatim>\<open>Partial<Record<Category, Product>>\<close>: at most one product per category.\<close>

type_synonym Selection = "Category \<Rightarrow> Product option"

section \<open>Compatibility engine\<close>

text \<open>\<^verbatim>\<open>parts[c]?.attributes?.tdp\<close>.\<close>

definition tdpOf :: "Product option \<Rightarrow> jsval" where
  "tdpOf p = (case p of None \<Rightarrow> Undefined | Some q \<Rightarrow> getProp (attributes q) ''tdp'')"

definition estimateWattage :: "(rat \<Rightarrow> string) \<Rightarrow> Selection \<Rightarrow> jsval" where
  "estimateWattage fmt parts =
     (let cpu = js_or (tdpOf (parts CPU)) (Num (Fin 0));
          gpu = js_or (tdpOf (parts GPU)) (Num (Fin 0))
      in js_add fmt (js_add fmt cpu gpu) (Num (Fin 100)))"

datatype level = Ok | Warn | Error

text \<open>
  The text of a note is one of fourteen templates of the source, kept here as a constructor
  together with the strings interpolated into it, in the order of the source.
\<close>

datatype msg =
    SocketMismatch string string
  | SocketOk
  | RamMismatch string string
  | RamOk
  | NoPcieSlot
  | PcieOk
  | CaseMismatch string string
  | CaseOk
  | CoolerMismatch string
  | CoolerOk
  | StorageMismatch string string
  | StorageOk
  | PsuShort string string
  | PsuEnough string

record CompatibilityNote =
  level :: level
  msg :: msg

text \<open>The returned object \<^verbatim>\<open>{ level, notes }\<close>; its field \<^verbatim>\<open>level\<close> is \<open>overall\<close> here.\<close>

record Compatibility =
  overall :: level
  "notes" :: "CompatibilityNote list"

text \<open>The seven blocks of \<^verbatim>\<open>checkCompatibility\<close>, each giving the notes it pushes.\<close>

definition cpuMbBlock ::
  "(rat \<Rightarrow> string) \<Rightarrow> Product option \<Rightarrow> Product option \<Rightarrow> CompatibilityNote list" where
  "cpuMbBlock fmt cpu mb =
     (case (cpu, mb) of
        (Some c, Some m) \<Rightarrow>
          (let cs = getProp (attributes c) ''socket''; ms = getProp (attributes m) ''socket'' in
           if \<not> strict_eq cs ms
           then [\<lparr>level = Error, msg = SocketMismatch (toString fmt cs) (toString fmt ms)\<rparr>]
           else [\<lparr>level = Ok, msg = SocketOk\<rparr>])
      | _ \<Rightarrow> [])"

definition ramMbBlock ::
  "(rat \<Rightarrow> string) \<Rightarrow> Product option \<Rightarrow> Product option \<Rightarrow> CompatibilityNote list" where
  "ramMbBlock fmt ram mb =
     (case (ram, mb) of
        (Some r, Some m) \<Rightarrow>
          (let rt = getProp (attributes r) ''type''; mt = getProp (attributes m) ''ramType'' in
           if \<not> strict_eq rt mt
           then [\<lparr>level = Error, msg = RamMismatch (toString fmt rt) (toString fmt mt)\<rparr>]
           else [\<lparr>level = Ok, msg = RamOk\<rparr>])
      | _ \<Rightarrow> [])"

definition gpuMbBlock :: "Product option \<Rightarrow> Product option \<Rightarrow> CompatibilityNote list" where
  "gpuMbBlock gpu mb =
     (case (gpu, mb) of
        (Some g, Some m) \<Rightarrow>
          (if \<not> truthy (getProp (attributes m) ''pcieSlots'')
           then [\<lparr>level = Error, msg = NoPcieSlot\<rparr>]
           else [\<lparr>level = Ok, msg = PcieOk\<rparr>])
      | _ \<Rightarrow> [])"

definition caseMbBlock ::
  "(rat \<Rightarrow> string) \<Rightarrow> Product option \<Rightarrow> Product option \<Rightarrow> exn + CompatibilityNote list" where
  "caseMbBlock fmt pcCase mb =
     (case (pcCase, mb) of
        (Some k, Some m) \<Rightarrow>
          (let fs = getProp (attributes k) ''formFactorSupport'';
               ff = getProp (attributes m) ''formFactor''
           in case js_includes fmt (js_or fs (Arr [])) ff of
                Inl e \<Rightarrow> Inl e
              | Inr ok \<Rightarrow>
                  if \<not> ok then
                    (case js_optJoin fmt fs '', '' of
                       Inl e \<Rightarrow> Inl e
                     | Inr j \<Rightarrow>
                         Inr [\<lparr>level = Error,
                               msg = CaseMismatch (toString fmt (js_or j (Str ''-'')))
                                       (toString fmt ff)\<rparr>])
                  else Inr [\<lparr>level = Ok, msg = CaseOk\<rparr>])
      | _ \<Rightarrow> Inr [])"

definition coolerCpuBlock ::
  "(rat \<Rightarrow> string) \<Rightarrow> Product option \<Rightarrow> Product option \<Rightarrow> exn + CompatibilityNote list" where
  "coolerCpuBlock fmt cooler cpu =
     (case (cooler, cpu) of
        (Some k, Some c) \<Rightarrow>
          (let ss = getProp (attributes k) ''socketSupport'';
               cs = getProp (attributes c) ''socket''
           in case js_includes fmt (js_or ss (Arr [])) cs of
                Inl e \<Rightarrow> Inl e
              | Inr ok \<Rightarrow>
                  if \<not> ok then Inr [\<lparr>level = Error, msg = CoolerMismatch (toString fmt cs)\<rparr>]
                  else Inr [\<lparr>level = Ok, msg = CoolerOk\<rparr>])
      | _ \<Rightarrow> Inr [])"

definition storageMbBlock ::
  "(rat \<Rightarrow> string) \<Rightarrow> Product option \<Rightarrow> Product option \<Rightarrow> exn + CompatibilityNote list" where
  "storageMbBlock fmt storage mb =
     (case (storage, mb) of
        (Some s, Some m) \<Rightarrow>
          (let iface = getProp (attributes s) ''interface'';
               ports = getProp (attributes m) ''storage''
           in if truthy iface \<and> truthy ports then
                (case js_includes fmt ports iface of
                   Inl e \<Rightarrow> Inl e
                 | Inr ok \<Rightarrow>
                     if \<not> ok then
                       (case js_callJoin fmt (js_or ports (Arr [])) '', '' of
                          Inl e \<Rightarrow> Inl e
                        | Inr j \<Rightarrow>
                            Inr [\<lparr>level = Error, msg = StorageMismatch (toString fmt iface) j\<rparr>])
                     else Inr [\<lparr>level = Ok, msg = StorageOk\<rparr>])
              else Inr [])
      | _ \<Rightarrow> Inr [])"

definition psuBlock ::
  "(rat \<Rightarrow> string) \<Rightarrow> Selection \<Rightarrow> Product option \<Rightarrow> CompatibilityNote list" where
  "psuBlock fmt parts psu =
     (case psu of
        Some p \<Rightarrow>
          (let need = estimateWattage fmt parts;
               has = js_or (getProp (attributes p) ''wattage'') (Num (Fin 0))
           in if js_lt fmt has need
              then [\<lparr>level = Warn, msg = PsuShort (toString fmt has) (toString fmt need)\<rparr>]
              else [\<lparr>level = Ok, msg = PsuEnough (toString fmt need)\<rparr>])
      | None \<Rightarrow> [])"

text \<open>
  \<^verbatim>\<open>checkCompatibility\<close>: the blocks run in the order of the source and push onto one list; an
  exception thrown inside a block leaves the function at once.
\<close>

definition checkCompatibility :: "(rat \<Rightarrow> string) \<Rightarrow> Selection \<Rightarrow> exn + Compatibility" where
  "checkCompatibility fmt parts =
     (let cpu = parts CPU; mb = parts Motherboard; ram = parts RAM; gpu = parts GPU;
          psu = parts PSU; cooler = parts Cooler; pcCase = parts Case; storage = parts Storage;
          notes1 = cpuMbBlock fmt cpu mb;
          notes2 = notes1 @ ramMbBlock fmt ram mb;
          notes3 = notes2 @ gpuMbBlock gpu mb
      in case caseMbBlock fmt pcCase mb of
           Inl e \<Rightarrow> Inl e
         | Inr n4 \<Rightarrow>
        (case coolerCpuBlock fmt cooler cpu of
           Inl e \<Rightarrow> Inl e
         | Inr n5 \<Rightarrow>
        (case storageMbBlock fmt storage mb of
           Inl e \<Rightarrow> Inl e
         | Inr n6 \<Rightarrow>
             (let notes7 = notes3 @ n4 @ n5 @ n6 @ psuBlock fmt parts psu;
                  lvl = (if list_ex (\<lambda>n. level n = Error) notes7 then Error
                         else if list_ex (\<lambda>n. level n = Warn) notes7 then Warn
                         else Ok)
              in Inr \<lparr>overall = lvl, notes = notes7\<rparr>))))"

text \<open>The block a note comes from, read off its template.\<close>

datatype check = CpuMb | RamMb | GpuMb | CaseMb | CoolerCpu | StorageMb | PsuWatt

fun checkOf :: "msg \<Rightarrow> check" where
  "checkOf (SocketMismatch a b) = CpuMb"
| "checkOf SocketOk = CpuMb"
| "checkOf (RamMismatch a b) = RamMb"
| "checkOf RamOk = RamMb"
| "checkOf NoPcieSlot = GpuMb"
| "checkOf PcieOk = GpuMb"
| "checkOf (CaseMismatch a b) = CaseMb"
| "checkOf CaseOk = CaseMb"
| "checkOf (CoolerMismatch a) = CoolerCpu"
| "checkOf CoolerOk = CoolerCpu"
| "checkOf (StorageMismatch a b) = StorageMb"
| "checkOf StorageOk = StorageMb"
| "checkOf (PsuShort a b) = PsuWatt"
| "checkOf (PsuEnough a) = PsuWatt"

definition notesOf :: "check \<Rightarrow> CompatibilityNote list \<Rightarrow> CompatibilityNote list" where
  "notesOf c ns = filter (\<lambda>n. checkOf (msg n) = c) ns"

text \<open>
  A value that \<^verbatim>\<open>.includes\<close> and \<^verbatim>\<open>.join\<close> accept in the three list-valued attributes:
  absent, or an array.
\<close>

definition listOrAbsent :: "jsval \<Rightarrow> bool" where
  "listOrAbsent v = (case v of Undefined \<Rightarrow> True | Arr xs \<Rightarrow> True | _ \<Rightarrow> False)"

definition attrOf :: "Product option \<Rightarrow> string \<Rightarrow> jsval" where
  "attrOf p k = (case p of None \<Rightarrow> Undefined | Some q \<Rightarrow> getProp (attributes q) k)"

definition listAttributes :: "Selection \<Rightarrow> bool" where
  "listAttributes parts =
     (listOrAbsent (attrOf (parts Case) ''formFactorSupport'')
      \<and> listOrAbsent (attrOf (parts Cooler) ''socketSupport'')
      \<and> listOrAbsent (attrOf (parts Motherboard) ''storage''))"

section \<open>Products of the demonstration catalogue\<close>

text \<open>
  Entries of \<^verbatim>\<open>DEMO_DATA\<close> (their identifiers are random in the source and fixed here), and a
  printer for the numbers in them: the decimal digits of an integer, as \<^verbatim>\<open>Number::toString\<close>
  prints every integer below \<open>10^21\<close> (the examples hold no other number).
\<close>

fun natDigits :: "nat \<Rightarrow> string" where
  "natDigits n =
     (if n < 10 then [''0123456789'' ! n]
      else natDigits (n div 10) @ [''0123456789'' ! (n mod 10)])"

declare natDigits.simps [simp del]

definition integerDigits :: "rat \<Rightarrow> string" where
  "integerDigits x =
     (if x < 0 then CHR ''-'' # natDigits (nat \<lfloor>- x\<rfloor>) else natDigits (nat \<lfloor>x\<rfloor>))"

definition ryzen5 :: Product where
  "ryzen5 = \<lparr>id_p = ''demo01'', name = ''AMD Ryzen 5 7600'', category = CPU,
     price = Fin 7490, stock = Fin 8,
     attributes = [(''socket'', Str ''AM5''), (''tdp'', Num (Fin 65))]\<rparr>"

definition corei5 :: Product where
  "corei5 = \<lparr>id_p = ''demo02'', name = ''Intel Core i5-13400F'', category = CPU,
     price = Fin 6990, stock = Fin 12,
     attributes = [(''socket'', Str ''LGA1700''), (''tdp'', Num (Fin 148))]\<rparr>"

definition tufB650 :: Product where
  "tufB650 = \<lparr>id_p = ''demo03'', name = ''ASUS TUF B650-PLUS'', category = Motherboard,
     price = Fin 7290, stock = Fin 6,
     attributes = [(''socket'', Str ''AM5''), (''ramType'', Str ''DDR5''),
       (''formFactor'', Str ''ATX''), (''pcieSlots'', Num (Fin 2)),
       (''storage'', Arr [Str ''M.2 NVMe'', Str ''SATA''])]\<rparr>"

definition rtx4070 :: Product where
  "rtx4070 = \<lparr>id_p = ''demo05'', name = ''NVIDIA RTX 4070 SUPER'', category = GPU,
     price = Fin 19990, stock = Fin 4,
     attributes = [(''tdp'', Num (Fin 220)), (''interface'', Str ''PCIe'')]\<rparr>"

definition neoeco550 :: Product where
  "neoeco550 = \<lparr>id_p = ''demo12'', name = ''Antec NeoECO 550'', category = PSU,
     price = Fin 1890, stock = Fin 11,
     attributes = [(''wattage'', Num (Fin 550))]\<rparr>"

definition nr200 :: Product where
  "nr200 = \<lparr>id_p = ''demo14'', name = ''Cooler Master NR200'', category = Case,
     price = Fin 3290, stock = Fin 5,
     attributes = [(''formFactorSupport'', Arr [Str ''ITX''])]\<rparr>"

text \<open>A case as the import stores it from a sheet whose cell reads \<^verbatim>\<open>ITX\<close>, without a comma.\<close>

definition importedCase :: Product where
  "importedCase = \<lparr>id_p = ''sheet01'', name = ''Case'', category = Case,
     price = Fin 3290, stock = Fin 5,
     attributes = [(''formFactorSupport'', Str ''ITX'')]\<rparr>"

definition psu300 :: Product where
  "psu300 = \<lparr>id_p = ''small01'', name = ''PSU 300'', category = PSU,
     price = Fin 900, stock = Fin 2,
     attributes = [(''wattage'', Num (Fin 300))]\<rparr>"

text \<open>A product with no attribute at all, under two categories.\<close>

definition bareCpu :: Product where
  "bareCpu = \<lparr>id_p = ''bare01'', name = ''CPU'', category = CPU,
     price = Fin 0, stock = Fin 1, attributes = []\<rparr>"

definition bareBoard :: Product where
  "bareBoard = \<lparr>id_p = ''bare02'', name = ''Board'', category = Motherboard,
     price = Fin 0, stock = Fin 1, attributes = []\<rparr>"

definition bareRam :: Product where
  "bareRam = \<lparr>id_p = ''bare03'', name = ''RAM'', category = RAM,
     price = Fin 0, stock = Fin 1, attributes = []\<rparr>"

definition bareCooler :: Product where
  "bareCooler = \<lparr>id_p = ''bare04'', name = ''Cooler'', category = Cooler,
     price = Fin 0, stock = Fin 1, attributes = []\<rparr>"

definition sn770 :: Product where
  "sn770 = \<lparr>id_p = ''demo09'', name = ''WD Black SN770 1TB NVMe'', category = Storage,
     price = Fin 2990, stock = Fin 18,
     attributes = [(''interface'', Str ''M.2 NVMe'')]\<rparr>"

definition emptySelection :: Selection where
  "emptySelection = (\<lambda>c. None)"

definition am5Build :: Selection where
  "am5Build = emptySelection(CPU \<mapsto> ryzen5, Motherboard \<mapsto> tufB650, PSU \<mapsto> neoeco550)"

definition mixedBuild :: Selection where
  "mixedBuild = emptySelection(CPU \<mapsto> corei5, Motherboard \<mapsto> tufB650,
     GPU \<mapsto> rtx4070, PSU \<mapsto> neoeco550, Case \<mapsto> nr200)"

definition weakBuild :: Selection where
  "weakBuild = emptySelection(CPU \<mapsto> ryzen5, GPU \<mapsto> rtx4070, PSU \<mapsto> psu300)"

definition importedCaseBuild :: Selection where
  "importedCaseBuild = emptySelection(Motherboard \<mapsto> tufB650, Case \<mapsto> importedCase)"

definition bareBuild :: Selection where
  "bareBuild = emptySelection(CPU \<mapsto> bareCpu, Motherboard \<mapsto> bareBoard, RAM \<mapsto> bareRam)"

definition gapBuild :: Selection where
  "gapBuild = emptySelection(CPU \<mapsto> ryzen5, Motherboard \<mapsto> bareBoard, RAM \<mapsto> bareRam,
     GPU \<mapsto> rtx4070, Case \<mapsto> nr200, Cooler \<mapsto> bareCooler, Storage \<mapsto> sn770)"





section \<open>Excel import\<close>

text \<open>
  \<^verbatim>\<open>String.prototype.toLowerCase\<close>. The letters A to Z go to a to z. Two characters outside
  ASCII have a lower case inside it and are mapped as Unicode does: U+212A KELVIN SIGN to \<open>k\<close>,
  and U+0130 to \<open>i\<close> followed by U+0307. Every other character stays as it is: where Unicode
  maps it, it maps it to another character outside ASCII, which the callers below either delete
  or compare with an ASCII word.
\<close>

definition asciiLower :: "char \<Rightarrow> char" where
  "asciiLower c =
     (case map_of (zip ''ABCDEFGHIJKLMNOPQRSTUVWXYZ'' ''abcdefghijklmnopqrstuvwxyz'') c of
        Some l \<Rightarrow> l
      | None \<Rightarrow> c)"

fun toLowerCase :: "string \<Rightarrow> string" where
  "toLowerCase [] = []"
| "toLowerCase (c # s) =
     (if c = CHR 0xE2 \<and> take 2 s = [CHR 0x84, CHR 0xAA] then CHR ''k'' # toLowerCase (drop 2 s)
      else if c = CHR 0xC4 \<and> take 1 s = [CHR 0xB0]
        then CHR ''i'' # CHR 0xCC # CHR 0x87 # toLowerCase (drop 1 s)
      else asciiLower c # toLowerCase s)"

text \<open>
  \<^verbatim>\<open>s.replace(/\\s+/g, "")\<close> as the source spells the pattern: a backslash followed by one or
  more letters \<open>s\<close>; every such run is deleted.
\<close>

function dropBackslashS :: "string \<Rightarrow> string" where
  "dropBackslashS [] = []"
| "dropBackslashS (c # s) =
     (if c = CHR 0x5C \<and> s \<noteq> [] \<and> hd s = CHR ''s''
      then dropBackslashS (dropWhile (\<lambda>x. x = CHR ''s'') s)
      else c # dropBackslashS s)"
  by pat_completeness auto
termination
  by (relation "measure length") (auto simp: less_Suc_eq_le length_dropWhile_le)

text \<open>\<^verbatim>\<open>s.replace(/[^a-z0-9]/g, "")\<close>.\<close>

definition isLowerAlnum :: "char \<Rightarrow> bool" where
  "isLowerAlnum c = (c \<in> set ''abcdefghijklmnopqrstuvwxyz0123456789'')"

definition normalizeHeader :: "string \<Rightarrow> string" where
  "normalizeHeader s = filter isLowerAlnum (dropBackslashS (toLowerCase s))"

text \<open>
  The Thai literals of the source, as their UTF-8 bytes; the names give the meaning of the word.
\<close>

definition thaiCategory :: string where
  "thaiCategory =
    [CHR 0xE0, CHR 0xB8, CHR 0xAB, CHR 0xE0, CHR 0xB8, CHR 0xA1, CHR 0xE0, CHR 0xB8, CHR 0xA7,
     CHR 0xE0, CHR 0xB8, CHR 0x94, CHR 0xE0, CHR 0xB8, CHR 0xAB, CHR 0xE0, CHR 0xB8, CHR 0xA1,
     CHR 0xE0, CHR 0xB8, CHR 0xB9, CHR 0xE0, CHR 0xB9, CHR 0x88]"

definition thaiProduct :: string where
  "thaiProduct =
    [CHR 0xE0, CHR 0xB8, CHR 0xAA, CHR 0xE0, CHR 0xB8, CHR 0xB4, CHR 0xE0, CHR 0xB8, CHR 0x99,
     CHR 0xE0, CHR 0xB8, CHR 0x84, CHR 0xE0, CHR 0xB9, CHR 0x89, CHR 0xE0, CHR 0xB8, CHR 0xB2]"

definition thaiPrice :: string where
  "thaiPrice =
    [CHR 0xE0, CHR 0xB8, CHR 0xA3, CHR 0xE0, CHR 0xB8, CHR 0xB2, CHR 0xE0, CHR 0xB8, CHR 0x84,
     CHR 0xE0, CHR 0xB8, CHR 0xB2]"

definition thaiRemaining :: string where
  "thaiRemaining =
    [CHR 0xE0, CHR 0xB8, CHR 0x84, CHR 0xE0, CHR 0xB8, CHR 0x87, CHR 0xE0, CHR 0xB9, CHR 0x80,
     CHR 0xE0, CHR 0xB8, CHR 0xAB, CHR 0xE0, CHR 0xB8, CHR 0xA5, CHR 0xE0, CHR 0xB8, CHR 0xB7,
     CHR 0xE0, CHR 0xB8, CHR 0xAD]"

definition thaiQuantity :: string where
  "thaiQuantity =
    [CHR 0xE0, CHR 0xB8, CHR 0x88, CHR 0xE0, CHR 0xB8, CHR 0xB3, CHR 0xE0, CHR 0xB8, CHR 0x99,
     CHR 0xE0, CHR 0xB8, CHR 0xA7, CHR 0xE0, CHR 0xB8, CHR 0x99]"

definition thaiSocket :: string where
  "thaiSocket =
    [CHR 0xE0, CHR 0xB8, CHR 0x8B, CHR 0xE0, CHR 0xB9, CHR 0x87, CHR 0xE0, CHR 0xB8, CHR 0xAD,
     CHR 0xE0, CHR 0xB8, CHR 0x81, CHR 0xE0, CHR 0xB9, CHR 0x80, CHR 0xE0, CHR 0xB8, CHR 0x81,
     CHR 0xE0, CHR 0xB9, CHR 0x87, CHR 0xE0, CHR 0xB8, CHR 0x95]"

definition thaiRam :: string where
  "thaiRam =
    [CHR 0xE0, CHR 0xB9, CHR 0x81, CHR 0xE0, CHR 0xB8, CHR 0xA3, CHR 0xE0, CHR 0xB8, CHR 0xA1]"

definition thaiSize :: string where
  "thaiSize =
    [CHR 0xE0, CHR 0xB8, CHR 0x82, CHR 0xE0, CHR 0xB8, CHR 0x99, CHR 0xE0, CHR 0xB8, CHR 0xB2,
     CHR 0xE0, CHR 0xB8, CHR 0x94]"

definition thaiBoardSupport :: string where
  "thaiBoardSupport =
    [CHR 0xE0, CHR 0xB8, CHR 0xA3, CHR 0xE0, CHR 0xB8, CHR 0xAD, CHR 0xE0, CHR 0xB8, CHR 0x87,
     CHR 0xE0, CHR 0xB8, CHR 0xA3, CHR 0xE0, CHR 0xB8, CHR 0xB1, CHR 0xE0, CHR 0xB8, CHR 0x9A,
     CHR 0xE0, CHR 0xB9, CHR 0x80, CHR 0xE0, CHR 0xB8, CHR 0xA1, CHR 0xE0, CHR 0xB8, CHR 0x99,
     CHR 0xE0, CHR 0xB8, CHR 0x9A, CHR 0xE0, CHR 0xB8, CHR 0xAD, CHR 0xE0, CHR 0xB8, CHR 0xA3,
     CHR 0xE0, CHR 0xB9, CHR 0x8C, CHR 0xE0, CHR 0xB8, CHR 0x94]"

definition thaiInterface :: string where
  "thaiInterface =
    [CHR 0xE0, CHR 0xB8, CHR 0xAD, CHR 0xE0, CHR 0xB8, CHR 0xB4, CHR 0xE0, CHR 0xB8, CHR 0x99,
     CHR 0xE0, CHR 0xB9, CHR 0x80, CHR 0xE0, CHR 0xB8, CHR 0x97, CHR 0xE0, CHR 0xB8, CHR 0xAD,
     CHR 0xE0, CHR 0xB8, CHR 0xA3, CHR 0xE0, CHR 0xB9, CHR 0x8C, CHR 0xE0, CHR 0xB9, CHR 0x80,
     CHR 0xE0, CHR 0xB8, CHR 0x9F, CHR 0xE0, CHR 0xB8, CHR 0x8B]"

definition thaiStoragePort :: string where
  "thaiStoragePort =
    [CHR 0xE0, CHR 0xB8, CHR 0x9E, CHR 0xE0, CHR 0xB8, CHR 0xAD, CHR 0xE0, CHR 0xB8, CHR 0xA3,
     CHR 0xE0, CHR 0xB9, CHR 0x8C, CHR 0xE0, CHR 0xB8, CHR 0x95, CHR 0xE0, CHR 0xB9, CHR 0x80,
     CHR 0xE0, CHR 0xB8, CHR 0x81, CHR 0xE0, CHR 0xB9, CHR 0x87, CHR 0xE0, CHR 0xB8, CHR 0x9A,
     CHR 0xE0, CHR 0xB8, CHR 0x82, CHR 0xE0, CHR 0xB9, CHR 0x89, CHR 0xE0, CHR 0xB8, CHR 0xAD,
     CHR 0xE0, CHR 0xB8, CHR 0xA1, CHR 0xE0, CHR 0xB8, CHR 0xB9, CHR 0xE0, CHR 0xB8, CHR 0xA5]"

definition thaiPower :: string where
  "thaiPower =
    [CHR 0xE0, CHR 0xB8, CHR 0x81, CHR 0xE0, CHR 0xB8, CHR 0xB3, CHR 0xE0, CHR 0xB8, CHR 0xA5,
     CHR 0xE0, CHR 0xB8, CHR 0xB1, CHR 0xE0, CHR 0xB8, CHR 0x87, CHR 0xE0, CHR 0xB9, CHR 0x84,
     CHR 0xE0, CHR 0xB8, CHR 0x9F]"

definition thaiSizeGb :: string where
  "thaiSizeGb =
    [CHR 0xE0, CHR 0xB8, CHR 0x82, CHR 0xE0, CHR 0xB8, CHR 0x99, CHR 0xE0, CHR 0xB8, CHR 0xB2,
     CHR 0xE0, CHR 0xB8, CHR 0x94, CHR 0x67, CHR 0x62]"

definition thaiCapacity :: string where
  "thaiCapacity =
    [CHR 0xE0, CHR 0xB8, CHR 0x84, CHR 0xE0, CHR 0xB8, CHR 0xA7, CHR 0xE0, CHR 0xB8, CHR 0xB2,
     CHR 0xE0, CHR 0xB8, CHR 0xA1, CHR 0xE0, CHR 0xB8, CHR 0x88, CHR 0xE0, CHR 0xB8, CHR 0xB8]"

definition thaiSocketSupport :: string where
  "thaiSocketSupport =
    [CHR 0xE0, CHR 0xB8, CHR 0xA3, CHR 0xE0, CHR 0xB8, CHR 0xAD, CHR 0xE0, CHR 0xB8, CHR 0x87,
     CHR 0xE0, CHR 0xB8, CHR 0xA3, CHR 0xE0, CHR 0xB8, CHR 0xB1, CHR 0xE0, CHR 0xB8, CHR 0x9A,
     CHR 0xE0, CHR 0xB8, CHR 0x8B, CHR 0xE0, CHR 0xB9, CHR 0x87, CHR 0xE0, CHR 0xB8, CHR 0xAD,
     CHR 0xE0, CHR 0xB8, CHR 0x81, CHR 0xE0, CHR 0xB9, CHR 0x80, CHR 0xE0, CHR 0xB8, CHR 0x81,
     CHR 0xE0, CHR 0xB9, CHR 0x87, CHR 0xE0, CHR 0xB8, CHR 0x95]"

text \<open>
  A row of \<^verbatim>\<open>sheet_to_json\<close> is an object from column header to cell value, here with its keys
  in the order of \<^verbatim>\<open>Object.keys\<close>. The loop over the keys fills \<^verbatim>\<open>map\<close>.
\<close>

definition headerMap :: "obj \<Rightarrow> obj" where
  "headerMap row = fold (\<lambda>k m. setProp (normalizeHeader k) (getProp row k) m) (map fst row) []"

text \<open>\<^verbatim>\<open>v + s\<close> for a string \<open>s\<close>: the string of \<open>v\<close> followed by \<open>s\<close>.\<close>

definition js_addStr :: "(rat \<Rightarrow> string) \<Rightarrow> jsval \<Rightarrow> string \<Rightarrow> string" where
  "js_addStr fmt v s = toString fmt (toPrimitive fmt v) @ s"

definition rawCategoryOf :: "(rat \<Rightarrow> string) \<Rightarrow> obj \<Rightarrow> string" where
  "rawCategoryOf fmt m =
     js_addStr fmt
       (js_or (js_or (getProp m ''category'') (getProp m thaiCategory)) (getProp m ''type'')) []"

definition categoryOf :: "string \<Rightarrow> Category" where
  "categoryOf rawCategory =
     (case find (\<lambda>c. toLowerCase (categoryName c)
                    = toLowerCase (if rawCategory \<noteq> [] then rawCategory else []))
             CATEGORIES of
        Some c \<Rightarrow> c
      | None \<Rightarrow> CPU)"

definition nameOf :: "(rat \<Rightarrow> string) \<Rightarrow> obj \<Rightarrow> string" where
  "nameOf fmt m =
     js_addStr fmt
       (js_or (js_or (js_or (getProp m ''name'') (getProp m thaiProduct)) (getProp m ''product''))
          (Str ''Unnamed'')) []"

definition priceOf :: "(rat \<Rightarrow> string) \<Rightarrow> obj \<Rightarrow> jsnum" where
  "priceOf fmt m =
     toNumber fmt (js_or (js_or (getProp m ''price'') (getProp m thaiPrice)) (Num (Fin 0)))"

definition stockOf :: "(rat \<Rightarrow> string) \<Rightarrow> obj \<Rightarrow> jsnum" where
  "stockOf fmt m =
     toNumber fmt
       (js_or (js_or (js_or (getProp m ''stock'') (getProp m thaiRemaining))
          (getProp m thaiQuantity)) (Num (Fin 0)))"

definition aliasPairs :: "(string \<times> string list) list" where
  "aliasPairs =
     [(''socket'', [''socket'', thaiSocket]),
      (''tdp'', [''tdp'']),
      (''ramType'', [''ramtype'', thaiRam, ''ram'']),
      (''formFactor'', [''formfactor'', thaiSize]),
      (''formFactorSupport'', [''formfactorsupport'', thaiBoardSupport]),
      (''pcieSlots'', [''pcieslots'']),
      (''interface'', [''interface'', thaiInterface]),
      (''storage'', [''storage'', thaiStoragePort]),
      (''wattage'', [''wattage'', thaiPower, ''w'']),
      (''sizeGB'', [''sizegb'', thaiSizeGb, thaiCapacity]),
      (''socketSupport'', [''socketsupport'', thaiSocketSupport])]"

text \<open>The value stored for a cell: a list for a string with a comma, a number when it reads as one.\<close>

definition cellValue :: "(rat \<Rightarrow> string) \<Rightarrow> jsval \<Rightarrow> jsval" where
  "cellValue fmt v =
     (case v of
        Str s \<Rightarrow>
          if isSubstring '','' s then Arr (map (\<lambda>x. Str (trim x)) (splitOn CHR '','' s))
          else if toNumber fmt v = NaN then v else Num (toNumber fmt v)
      | _ \<Rightarrow> if toNumber fmt v = NaN then v else Num (toNumber fmt v))"

text \<open>The inner loop: the first alias whose cell is neither \<^verbatim>\<open>undefined\<close> nor the empty string.\<close>

fun firstAlias :: "obj \<Rightarrow> string list \<Rightarrow> jsval option" where
  "firstAlias m [] = None"
| "firstAlias m (a # as) =
     (let v = getProp m (normalizeHeader a) in
      if \<not> strict_eq v Undefined \<and> \<not> strict_eq v (Str []) then Some v else firstAlias m as)"

definition aliasAttributes :: "(rat \<Rightarrow> string) \<Rightarrow> obj \<Rightarrow> obj" where
  "aliasAttributes fmt m =
     fold (\<lambda>(key, aliases) attrs.
             case firstAlias m aliases of
               None \<Rightarrow> attrs
             | Some v \<Rightarrow> setProp key (cellValue fmt v) attrs)
       aliasPairs []"

text \<open>
  \<^verbatim>\<open>Object.assign(attributes, extra)\<close> writes the own enumerable properties of \<open>extra\<close> in
  their order. For a value that is not a string these are: the members of an object, the
  elements of an array under their indices, and nothing for a number, a boolean or \<^verbatim>\<open>null\<close>.
\<close>

definition ownEntries :: "jsval \<Rightarrow> obj" where
  "ownEntries v =
     (case v of
        Obj kvs \<Rightarrow> kvs
      | Arr xs \<Rightarrow> zip (map natDigits [0 ..< length xs]) xs
      | _ \<Rightarrow> [])"

definition objectAssign :: "obj \<Rightarrow> obj \<Rightarrow> obj" where
  "objectAssign target entries = fold (\<lambda>(k, v) t. setProp k v t) entries target"

text \<open>
  The \<^verbatim>\<open>attributes\<close> column. \<^verbatim>\<open>JSON.parse\<close> belongs to the runtime: the model takes the
  parameter \<open>parseEntries\<close>, which gives for a text the own enumerable properties of
  \<^verbatim>\<open>JSON.parse(text)\<close>, and \<open>None\<close> when \<^verbatim>\<open>JSON.parse\<close> throws. The \<^verbatim>\<open>catch {}\<close> of the source
  leaves the attributes as they are.
\<close>

definition mergeAttributes :: "(string \<Rightarrow> obj option) \<Rightarrow> obj \<Rightarrow> jsval \<Rightarrow> obj" where
  "mergeAttributes parseEntries attrs attrRaw =
     (if truthy attrRaw then
        (case (case attrRaw of Str s \<Rightarrow> parseEntries s | v \<Rightarrow> Some (ownEntries v)) of
           None \<Rightarrow> attrs
         | Some entries \<Rightarrow> objectAssign attrs entries)
      else attrs)"

text \<open>The body of the loop over the rows; \<open>newId\<close> is the value \<^verbatim>\<open>uid()\<close> returns.\<close>

definition rowToProduct ::
  "(rat \<Rightarrow> string) \<Rightarrow> (string \<Rightarrow> obj option) \<Rightarrow> string \<Rightarrow> obj \<Rightarrow> Product" where
  "rowToProduct fmt parseEntries newId row =
     (let m = headerMap row;
          rawCategory = rawCategoryOf fmt m;
          category = categoryOf rawCategory;
          name = nameOf fmt m;
          price = priceOf fmt m;
          stock = stockOf fmt m;
          attributes = aliasAttributes fmt m;
          attrRaw = getProp m ''attributes'';
          attributes = mergeAttributes parseEntries attributes attrRaw
      in \<lparr>id_p = newId, name = name, category = category, price = price, stock = stock,
           attributes = attributes\<rparr>)"


section \<open>Catalogue and builder state\<close>

text \<open>The two pieces of state of \<^verbatim>\<open>App\<close>: the inventory and the build.\<close>

record AppState =
  inventory :: "Product list"
  build :: Selection

definition deleteProduct :: "string \<Rightarrow> AppState \<Rightarrow> AppState" where
  "deleteProduct i st = st\<lparr>inventory := filter (\<lambda>p. id_p p \<noteq> i) (inventory st)\<rparr>"

text \<open>\<^verbatim>\<open>selectPart(cat, product)\<close>; \<open>None\<close> is the source's \<^verbatim>\<open>null\<close>.\<close>

definition selectPart :: "Category \<Rightarrow> Product option \<Rightarrow> AppState \<Rightarrow> AppState" where
  "selectPart cat product st = st\<lparr>build := (build st)(cat := product)\<rparr>"

section \<open>Rows and texts of the examples\<close>

text \<open>The JSON text \<^verbatim>\<open>{"tdp":95}\<close>.\<close>

definition tdpJson :: string where
  "tdpJson = ''{'' @ [CHR 0x22] @ ''tdp'' @ [CHR 0x22] @ '':95}''"

text \<open>
  What \<^verbatim>\<open>JSON.parse\<close> followed by the enumeration of the own properties gives on the two
  texts of the examples: the one member of \<open>tdpJson\<close>, and a syntax error on \<^verbatim>\<open>oops\<close>.
\<close>

definition exampleParse :: "string \<Rightarrow> obj option" where
  "exampleParse s = (if s = tdpJson then Some [(''tdp'', Num (Fin 95))] else None)"

definition thaiRow :: obj where
  "thaiRow = [(thaiCategory, Str ''GPU'')]"

definition englishRow :: obj where
  "englishRow = [(''Category'', Str ''gPu''), (''Name'', Str ''RTX''), (''Price'', Num (Fin 19990))]"





definition objectRow :: obj where
  "objectRow = [(''TDP'', Num (Fin 65)), (''Attributes'', Obj [(''socket'', Str ''AM4'')])]"

definition caseRow :: obj where
  "caseRow = [(''Category'', Str ''Case''), (''Name'', Str ''Case''),
     (''FormFactorSupport'', Str ''ITX'')]"

definition demoState :: AppState where
  "demoState = \<lparr>inventory = [ryzen5, tufB650, neoeco550], build = am5Build\<rparr>"

section \<open>Properties of the compatibility engine\<close>

subsection \<open>Which notes a block pushes\<close>

lemma notesOf_append: "notesOf c (xs @ ys) = notesOf c xs @ notesOf c ys"
  by (simp add: notesOf_def)

lemma notesOf_Nil: "notesOf c [] = []"
  by (simp add: notesOf_def)

lemma notesOf_cpuMbBlock:
  "notesOf c (cpuMbBlock fmt cpu mb) = (if c = CpuMb then cpuMbBlock fmt cpu mb else [])"
  by (auto simp: notesOf_def cpuMbBlock_def Let_def split: option.splits)

lemma notesOf_ramMbBlock:
  "notesOf c (ramMbBlock fmt ram mb) = (if c = RamMb then ramMbBlock fmt ram mb else [])"
  by (auto simp: notesOf_def ramMbBlock_def Let_def split: option.splits)

lemma notesOf_gpuMbBlock:
  "notesOf c (gpuMbBlock gpu mb) = (if c = GpuMb then gpuMbBlock gpu mb else [])"
  by (auto simp: notesOf_def gpuMbBlock_def split: option.splits)

lemma notesOf_caseMbBlock:
  "caseMbBlock fmt pcCase mb = Inr ns \<Longrightarrow> notesOf c ns = (if c = CaseMb then ns else [])"
  by (auto simp: notesOf_def caseMbBlock_def Let_def split: option.splits sum.splits if_splits)

lemma notesOf_coolerCpuBlock:
  "coolerCpuBlock fmt cooler cpu = Inr ns \<Longrightarrow> notesOf c ns = (if c = CoolerCpu then ns else [])"
  by (auto simp: notesOf_def coolerCpuBlock_def Let_def split: option.splits sum.splits if_splits)

lemma notesOf_storageMbBlock:
  "storageMbBlock fmt storage mb = Inr ns \<Longrightarrow> notesOf c ns = (if c = StorageMb then ns else [])"
  by (auto simp: notesOf_def storageMbBlock_def Let_def split: option.splits sum.splits if_splits)

lemma notesOf_psuBlock:
  "notesOf c (psuBlock fmt parts psu) = (if c = PsuWatt then psuBlock fmt parts psu else [])"
  by (auto simp: notesOf_def psuBlock_def Let_def split: option.splits)

text \<open>A returned result is made of the seven blocks, in order.\<close>

lemma checkCompatibility_Inr:
  assumes "checkCompatibility fmt parts = Inr r"
  obtains n4 n5 n6 where
    "caseMbBlock fmt (parts Case) (parts Motherboard) = Inr n4"
    "coolerCpuBlock fmt (parts Cooler) (parts CPU) = Inr n5"
    "storageMbBlock fmt (parts Storage) (parts Motherboard) = Inr n6"
    "notes r = cpuMbBlock fmt (parts CPU) (parts Motherboard)
             @ ramMbBlock fmt (parts RAM) (parts Motherboard)
             @ gpuMbBlock (parts GPU) (parts Motherboard)
             @ n4 @ n5 @ n6 @ psuBlock fmt parts (parts PSU)"
    "overall r = (if list_ex (\<lambda>n. level n = Error) (notes r) then Error
                  else if list_ex (\<lambda>n. level n = Warn) (notes r) then Warn else Ok)"
  using assms
  by (auto simp: checkCompatibility_def Let_def split: sum.splits)

lemma notesOf_result:
  assumes "checkCompatibility fmt parts = Inr r"
  shows "notesOf CpuMb (notes r) = cpuMbBlock fmt (parts CPU) (parts Motherboard)"
    and "notesOf RamMb (notes r) = ramMbBlock fmt (parts RAM) (parts Motherboard)"
    and "notesOf GpuMb (notes r) = gpuMbBlock (parts GPU) (parts Motherboard)"
    and "caseMbBlock fmt (parts Case) (parts Motherboard) = Inr (notesOf CaseMb (notes r))"
    and "coolerCpuBlock fmt (parts Cooler) (parts CPU) = Inr (notesOf CoolerCpu (notes r))"
    and "storageMbBlock fmt (parts Storage) (parts Motherboard) = Inr (notesOf StorageMb (notes r))"
    and "notesOf PsuWatt (notes r) = psuBlock fmt parts (parts PSU)"
proof -
  from assms obtain n4 n5 n6 where
    b: "caseMbBlock fmt (parts Case) (parts Motherboard) = Inr n4"
       "coolerCpuBlock fmt (parts Cooler) (parts CPU) = Inr n5"
       "storageMbBlock fmt (parts Storage) (parts Motherboard) = Inr n6"
    and n: "notes r = cpuMbBlock fmt (parts CPU) (parts Motherboard)
             @ ramMbBlock fmt (parts RAM) (parts Motherboard)
             @ gpuMbBlock (parts GPU) (parts Motherboard)
             @ n4 @ n5 @ n6 @ psuBlock fmt parts (parts PSU)"
    by (rule checkCompatibility_Inr)
  note f = notesOf_append notesOf_cpuMbBlock notesOf_ramMbBlock notesOf_gpuMbBlock
    notesOf_psuBlock notesOf_caseMbBlock [OF b(1)] notesOf_coolerCpuBlock [OF b(2)]
    notesOf_storageMbBlock [OF b(3)]
  show "notesOf CpuMb (notes r) = cpuMbBlock fmt (parts CPU) (parts Motherboard)"
    by (simp add: n f)
  show "notesOf RamMb (notes r) = ramMbBlock fmt (parts RAM) (parts Motherboard)"
    by (simp add: n f)
  show "notesOf GpuMb (notes r) = gpuMbBlock (parts GPU) (parts Motherboard)"
    by (simp add: n f)
  show "caseMbBlock fmt (parts Case) (parts Motherboard) = Inr (notesOf CaseMb (notes r))"
    by (simp add: n f b)
  show "coolerCpuBlock fmt (parts Cooler) (parts CPU) = Inr (notesOf CoolerCpu (notes r))"
    by (simp add: n f b)
  show "storageMbBlock fmt (parts Storage) (parts Motherboard) = Inr (notesOf StorageMb (notes r))"
    by (simp add: n f b)
  show "notesOf PsuWatt (notes r) = psuBlock fmt parts (parts PSU)"
    by (simp add: n f)
qed

subsection \<open>When the engine returns\<close>

text \<open>
  The three list-valued attributes are read through \<^verbatim>\<open>.includes\<close> and \<^verbatim>\<open>.join\<close>. The engine
  returns on every selection in which each of them is absent or an array.
\<close>

lemma caseMbBlock_returns:
  "listOrAbsent (attrOf pcCase ''formFactorSupport'') \<Longrightarrow> \<exists>ns. caseMbBlock fmt pcCase mb = Inr ns"
  by (auto simp: caseMbBlock_def listOrAbsent_def attrOf_def js_or_def Let_def
      split: option.splits jsval.splits)

lemma coolerCpuBlock_returns:
  "listOrAbsent (attrOf cooler ''socketSupport'') \<Longrightarrow> \<exists>ns. coolerCpuBlock fmt cooler cpu = Inr ns"
  by (auto simp: coolerCpuBlock_def listOrAbsent_def attrOf_def js_or_def Let_def
      split: option.splits jsval.splits)

lemma storageMbBlock_returns:
  "listOrAbsent (attrOf mb ''storage'') \<Longrightarrow> \<exists>ns. storageMbBlock fmt storage mb = Inr ns"
  by (auto simp: storageMbBlock_def listOrAbsent_def attrOf_def js_or_def Let_def
      split: option.splits jsval.splits)

lemma checkCompatibility_returns:
  assumes "listAttributes parts"
  shows "\<exists>r. checkCompatibility fmt parts = Inr r"
proof -
  from assms obtain n4 n5 n6 where
    "caseMbBlock fmt (parts Case) (parts Motherboard) = Inr n4"
    "coolerCpuBlock fmt (parts Cooler) (parts CPU) = Inr n5"
    "storageMbBlock fmt (parts Storage) (parts Motherboard) = Inr n6"
    unfolding listAttributes_def
    using caseMbBlock_returns coolerCpuBlock_returns storageMbBlock_returns by metis
  then show ?thesis
    by (simp add: checkCompatibility_def Let_def)
qed

lemmas demo_defs =
  am5Build_def mixedBuild_def bareBuild_def weakBuild_def gapBuild_def importedCaseBuild_def
  emptySelection_def ryzen5_def corei5_def tufB650_def rtx4070_def neoeco550_def nr200_def
  psu300_def sn770_def importedCase_def bareCpu_def bareBoard_def bareRam_def bareCooler_def

lemmas engine_defs =
  checkCompatibility_def cpuMbBlock_def ramMbBlock_def gpuMbBlock_def caseMbBlock_def
  coolerCpuBlock_def storageMbBlock_def psuBlock_def estimateWattage_def tdpOf_def getProp_def
  js_or_def js_add_def js_lt_def Let_def isStr_def js_join_def


lemma listAttributes_mixedBuild: "listAttributes mixedBuild"
  by (simp add: listAttributes_def listOrAbsent_def attrOf_def getProp_def demo_defs)

lemma am5Build_result:
  "checkCompatibility integerDigits am5Build =
     Inr \<lparr>overall = Ok,
          notes = [\<lparr>level = Ok, msg = SocketOk\<rparr>, \<lparr>level = Ok, msg = PsuEnough ''165''\<rparr>]\<rparr>"
  by (simp add: demo_defs engine_defs integerDigits_def natDigits.simps)

lemma mixedBuild_result:
  "checkCompatibility integerDigits mixedBuild =
     Inr \<lparr>overall = Error,
          notes = [\<lparr>level = Error, msg = SocketMismatch ''LGA1700'' ''AM5''\<rparr>,
                   \<lparr>level = Ok, msg = PcieOk\<rparr>,
                   \<lparr>level = Error, msg = CaseMismatch ''ITX'' ''ATX''\<rparr>,
                   \<lparr>level = Ok, msg = PsuEnough ''468''\<rparr>]\<rparr>"
  by (simp add: demo_defs engine_defs sameValueZero_def integerDigits_def natDigits.simps)

lemma weakBuild_result:
  "checkCompatibility integerDigits weakBuild =
     Inr \<lparr>overall = Warn, notes = [\<lparr>level = Warn, msg = PsuShort ''300'' ''385''\<rparr>]\<rparr>"
  by (simp add: demo_defs engine_defs integerDigits_def natDigits.simps)

lemma bareBuild_result:
  "checkCompatibility fmt bareBuild =
     Inr \<lparr>overall = Ok, notes = [\<lparr>level = Ok, msg = SocketOk\<rparr>, \<lparr>level = Ok, msg = RamOk\<rparr>]\<rparr>"
  by (simp add: demo_defs engine_defs)

lemma emptySelection_result:
  "checkCompatibility fmt emptySelection = Inr \<lparr>overall = Ok, notes = []\<rparr>"
  by (simp add: emptySelection_def engine_defs)

text \<open>
  Outside these selections the engine can throw: a case whose \<^verbatim>\<open>formFactorSupport\<close> is the
  string \<^verbatim>\<open>ITX\<close> against an ATX motherboard reaches \<^verbatim>\<open>.join\<close> on a string.
\<close>

lemma importedCaseBuild_throws:
  "\<not> listAttributes importedCaseBuild
   \<and> checkCompatibility integerDigits importedCaseBuild = Inl TypeError"
  by (simp add: listAttributes_def listOrAbsent_def attrOf_def demo_defs engine_defs)

subsection \<open>The socket check\<close>




subsection \<open>The overall level\<close>

text \<open>
  C3. The overall level of a result is \<open>Error\<close> if one of its notes has level \<open>Error\<close>,
  otherwise \<open>Warn\<close> if one of its notes has level \<open>Warn\<close>, otherwise \<open>Ok\<close>; the empty
  selection gives the empty list of notes with overall level \<open>Ok\<close>. The engine returns a result
  on every selection whose list-valued attributes are arrays or absent.
\<close>

theorem overall_level:
  "(listAttributes parts \<longrightarrow> (\<exists>r. checkCompatibility fmt parts = Inr r))
   \<and> (\<forall>r. checkCompatibility fmt parts = Inr r \<longrightarrow>
         overall r = (if (\<exists>n \<in> set (notes r). level n = Error) then Error
                      else if (\<exists>n \<in> set (notes r). level n = Warn) then Warn
                      else Ok))
   \<and> checkCompatibility fmt emptySelection = Inr \<lparr>overall = Ok, notes = []\<rparr>"
proof (intro conjI allI impI)
  assume "listAttributes parts"
  then show "\<exists>r. checkCompatibility fmt parts = Inr r"
    by (rule checkCompatibility_returns)
next
  fix r
  assume "checkCompatibility fmt parts = Inr r"
  then have "overall r = (if list_ex (\<lambda>n. level n = Error) (notes r) then Error
                  else if list_ex (\<lambda>n. level n = Warn) (notes r) then Warn else Ok)"
    by (rule checkCompatibility_Inr)
  then show "overall r = (if (\<exists>n \<in> set (notes r). level n = Error) then Error
                      else if (\<exists>n \<in> set (notes r). level n = Warn) then Warn
                      else Ok)"
    by (simp add: list_ex_iff)
next
  show "checkCompatibility fmt emptySelection = Inr \<lparr>overall = Ok, notes = []\<rparr>"
    by (rule emptySelection_result)
qed

theorem overall_level_witness:
  "listAttributes mixedBuild
   \<and> (\<exists>r. checkCompatibility integerDigits mixedBuild = Inr r
        \<and> (\<exists>n \<in> set (notes r). level n = Error) \<and> overall r = Error)
   \<and> (\<exists>r. checkCompatibility integerDigits weakBuild = Inr r
        \<and> \<not> (\<exists>n \<in> set (notes r). level n = Error)
        \<and> (\<exists>n \<in> set (notes r). level n = Warn) \<and> overall r = Warn)
   \<and> (\<exists>r. checkCompatibility integerDigits am5Build = Inr r
        \<and> notes r \<noteq> [] \<and> (\<forall>n \<in> set (notes r). level n = Ok) \<and> overall r = Ok)"
proof -
  have m: "\<exists>r. checkCompatibility integerDigits mixedBuild = Inr r
        \<and> (\<exists>n \<in> set (notes r). level n = Error) \<and> overall r = Error"
  proof (intro exI conjI)
    show r: "checkCompatibility integerDigits mixedBuild = Inr \<lparr>overall = Error,
          notes = [\<lparr>level = Error, msg = SocketMismatch ''LGA1700'' ''AM5''\<rparr>,
                   \<lparr>level = Ok, msg = PcieOk\<rparr>,
                   \<lparr>level = Error, msg = CaseMismatch ''ITX'' ''ATX''\<rparr>,
                   \<lparr>level = Ok, msg = PsuEnough ''468''\<rparr>]\<rparr>"
      by (rule mixedBuild_result)
    show e: "\<exists>n \<in> set (notes \<lparr>overall = Error,
          notes = [\<lparr>level = Error, msg = SocketMismatch ''LGA1700'' ''AM5''\<rparr>,
                   \<lparr>level = Ok, msg = PcieOk\<rparr>,
                   \<lparr>level = Error, msg = CaseMismatch ''ITX'' ''ATX''\<rparr>,
                   \<lparr>level = Ok, msg = PsuEnough ''468''\<rparr>]\<rparr>). level n = Error"
      by simp
    from overall_level [of mixedBuild integerDigits] r e
    show "overall \<lparr>overall = Error,
          notes = [\<lparr>level = Error, msg = SocketMismatch ''LGA1700'' ''AM5''\<rparr>,
                   \<lparr>level = Ok, msg = PcieOk\<rparr>,
                   \<lparr>level = Error, msg = CaseMismatch ''ITX'' ''ATX''\<rparr>,
                   \<lparr>level = Ok, msg = PsuEnough ''468''\<rparr>]\<rparr> = Error"
      by presburger
  qed
  have w: "\<exists>r. checkCompatibility integerDigits weakBuild = Inr r
        \<and> \<not> (\<exists>n \<in> set (notes r). level n = Error)
        \<and> (\<exists>n \<in> set (notes r). level n = Warn) \<and> overall r = Warn"
  proof (intro exI conjI)
    show r: "checkCompatibility integerDigits weakBuild =
        Inr \<lparr>overall = Warn, notes = [\<lparr>level = Warn, msg = PsuShort ''300'' ''385''\<rparr>]\<rparr>"
      by (rule weakBuild_result)
    show e: "\<not> (\<exists>n \<in> set (notes \<lparr>overall = Warn,
        notes = [\<lparr>level = Warn, msg = PsuShort ''300'' ''385''\<rparr>]\<rparr>). level n = Error)"
      by simp
    show f: "\<exists>n \<in> set (notes \<lparr>overall = Warn,
        notes = [\<lparr>level = Warn, msg = PsuShort ''300'' ''385''\<rparr>]\<rparr>). level n = Warn"
      by simp
    from overall_level [of weakBuild integerDigits] r e f
    show "overall \<lparr>overall = Warn,
        notes = [\<lparr>level = Warn, msg = PsuShort ''300'' ''385''\<rparr>]\<rparr> = Warn"
      by presburger
  qed
  have a: "\<exists>r. checkCompatibility integerDigits am5Build = Inr r
        \<and> notes r \<noteq> [] \<and> (\<forall>n \<in> set (notes r). level n = Ok) \<and> overall r = Ok"
  proof (intro exI conjI)
    show r: "checkCompatibility integerDigits am5Build = Inr \<lparr>overall = Ok,
          notes = [\<lparr>level = Ok, msg = SocketOk\<rparr>, \<lparr>level = Ok, msg = PsuEnough ''165''\<rparr>]\<rparr>"
      by (rule am5Build_result)
    show "notes \<lparr>overall = Ok,
          notes = [\<lparr>level = Ok, msg = SocketOk\<rparr>, \<lparr>level = Ok, msg = PsuEnough ''165''\<rparr>]\<rparr> \<noteq> []"
      by simp
    show e: "\<forall>n \<in> set (notes \<lparr>overall = Ok,
          notes = [\<lparr>level = Ok, msg = SocketOk\<rparr>, \<lparr>level = Ok, msg = PsuEnough ''165''\<rparr>]\<rparr>).
          level n = Ok"
      by simp
    show "overall \<lparr>overall = Ok,
          notes = [\<lparr>level = Ok, msg = SocketOk\<rparr>, \<lparr>level = Ok, msg = PsuEnough ''165''\<rparr>]\<rparr> = Ok"
      by simp
  qed
  from listAttributes_mixedBuild m w a show ?thesis by blast
qed

subsection \<open>Checks with an absent side\<close>

lemma cpuMbBlock_absent: "cpu = None \<or> mb = None \<Longrightarrow> cpuMbBlock fmt cpu mb = []"
  by (auto simp: cpuMbBlock_def split: option.splits)

lemma ramMbBlock_absent: "ram = None \<or> mb = None \<Longrightarrow> ramMbBlock fmt ram mb = []"
  by (auto simp: ramMbBlock_def split: option.splits)

lemma gpuMbBlock_absent: "gpu = None \<or> mb = None \<Longrightarrow> gpuMbBlock gpu mb = []"
  by (auto simp: gpuMbBlock_def split: option.splits)

lemma caseMbBlock_absent: "pcCase = None \<or> mb = None \<Longrightarrow> caseMbBlock fmt pcCase mb = Inr []"
  by (auto simp: caseMbBlock_def split: option.splits)

lemma coolerCpuBlock_absent:
  "cooler = None \<or> cpu = None \<Longrightarrow> coolerCpuBlock fmt cooler cpu = Inr []"
  by (auto simp: coolerCpuBlock_def split: option.splits)

lemma storageMbBlock_absent:
  "storage = None \<or> mb = None \<Longrightarrow> storageMbBlock fmt storage mb = Inr []"
  by (auto simp: storageMbBlock_def split: option.splits)

text \<open>
  C4. In a result of \<^verbatim>\<open>checkCompatibility\<close>, a pairwise check one of whose two categories is
  not selected has no note of any level, and neither has the PSU check when no PSU is selected.
  The engine returns a result on every selection whose list-valued attributes are arrays or
  absent.
\<close>

theorem absent_side_no_note:
  "(listAttributes parts \<longrightarrow> (\<exists>r. checkCompatibility fmt parts = Inr r))
   \<and> (\<forall>r. checkCompatibility fmt parts = Inr r \<longrightarrow>
         (parts CPU = None \<or> parts Motherboard = None \<longrightarrow> notesOf CpuMb (notes r) = [])
       \<and> (parts RAM = None \<or> parts Motherboard = None \<longrightarrow> notesOf RamMb (notes r) = [])
       \<and> (parts GPU = None \<or> parts Motherboard = None \<longrightarrow> notesOf GpuMb (notes r) = [])
       \<and> (parts Case = None \<or> parts Motherboard = None \<longrightarrow> notesOf CaseMb (notes r) = [])
       \<and> (parts Cooler = None \<or> parts CPU = None \<longrightarrow> notesOf CoolerCpu (notes r) = [])
       \<and> (parts Storage = None \<or> parts Motherboard = None
            \<longrightarrow> notesOf StorageMb (notes r) = [])
       \<and> (parts PSU = None \<longrightarrow> notesOf PsuWatt (notes r) = []))"
proof (intro conjI allI impI)
  assume "listAttributes parts"
  then show "\<exists>r. checkCompatibility fmt parts = Inr r"
    by (rule checkCompatibility_returns)
next
  fix r
  assume r: "checkCompatibility fmt parts = Inr r"
  { assume "parts CPU = None \<or> parts Motherboard = None"
    then show "notesOf CpuMb (notes r) = []"
      by (simp add: notesOf_result(1) [OF r] cpuMbBlock_absent) }
  { assume "parts RAM = None \<or> parts Motherboard = None"
    then show "notesOf RamMb (notes r) = []"
      by (simp add: notesOf_result(2) [OF r] ramMbBlock_absent) }
  { assume "parts GPU = None \<or> parts Motherboard = None"
    then show "notesOf GpuMb (notes r) = []"
      by (simp add: notesOf_result(3) [OF r] gpuMbBlock_absent) }
  { assume "parts Case = None \<or> parts Motherboard = None"
    then have "caseMbBlock fmt (parts Case) (parts Motherboard) = Inr []"
      by (rule caseMbBlock_absent)
    with notesOf_result(4) [OF r] show "notesOf CaseMb (notes r) = []"
      by simp }
  { assume "parts Cooler = None \<or> parts CPU = None"
    then have "coolerCpuBlock fmt (parts Cooler) (parts CPU) = Inr []"
      by (rule coolerCpuBlock_absent)
    with notesOf_result(5) [OF r] show "notesOf CoolerCpu (notes r) = []"
      by simp }
  { assume "parts Storage = None \<or> parts Motherboard = None"
    then have "storageMbBlock fmt (parts Storage) (parts Motherboard) = Inr []"
      by (rule storageMbBlock_absent)
    with notesOf_result(6) [OF r] show "notesOf StorageMb (notes r) = []"
      by simp }
  { assume "parts PSU = None"
    then show "notesOf PsuWatt (notes r) = []"
      by (simp add: notesOf_result(7) [OF r] psuBlock_def) }
qed

theorem absent_side_no_note_witness:
  "listAttributes weakBuild
   \<and> weakBuild Motherboard = None \<and> weakBuild Cooler = None
   \<and> (\<exists>r. checkCompatibility integerDigits weakBuild = Inr r
        \<and> notesOf CpuMb (notes r) = [] \<and> notesOf RamMb (notes r) = []
        \<and> notesOf GpuMb (notes r) = [] \<and> notesOf CaseMb (notes r) = []
        \<and> notesOf CoolerCpu (notes r) = [] \<and> notesOf StorageMb (notes r) = []
        \<and> notes r = [\<lparr>level = Warn, msg = PsuShort ''300'' ''385''\<rparr>])
   \<and> bareBuild PSU = None
   \<and> (\<exists>r. checkCompatibility integerDigits bareBuild = Inr r
        \<and> notesOf PsuWatt (notes r) = [] \<and> notes r = [\<lparr>level = Ok, msg = SocketOk\<rparr>, \<lparr>level = Ok, msg = RamOk\<rparr>])"
proof -
  have l: "listAttributes weakBuild"
    by (simp add: listAttributes_def listOrAbsent_def attrOf_def getProp_def demo_defs)
  have n: "weakBuild Motherboard = None" "weakBuild Cooler = None" "bareBuild PSU = None"
    by (simp_all add: demo_defs)
  from absent_side_no_note [of weakBuild integerDigits] weakBuild_result n
  have w: "notesOf CpuMb (notes \<lparr>overall = Warn,
             notes = [\<lparr>level = Warn, msg = PsuShort ''300'' ''385''\<rparr>]\<rparr>) = []"
    by blast
  from absent_side_no_note [of bareBuild integerDigits] bareBuild_result [of integerDigits] n
  have b: "notesOf PsuWatt (notes \<lparr>overall = Ok,
             notes = [\<lparr>level = Ok, msg = SocketOk\<rparr>, \<lparr>level = Ok, msg = RamOk\<rparr>]\<rparr>) = []"
    by blast
  have "\<exists>r. checkCompatibility integerDigits weakBuild = Inr r
        \<and> notesOf CpuMb (notes r) = [] \<and> notesOf RamMb (notes r) = []
        \<and> notesOf GpuMb (notes r) = [] \<and> notesOf CaseMb (notes r) = []
        \<and> notesOf CoolerCpu (notes r) = [] \<and> notesOf StorageMb (notes r) = []
        \<and> notes r = [\<lparr>level = Warn, msg = PsuShort ''300'' ''385''\<rparr>]"
    using w by (simp add: weakBuild_result notesOf_def)
  moreover have "\<exists>r. checkCompatibility integerDigits bareBuild = Inr r
        \<and> notesOf PsuWatt (notes r) = [] \<and> notes r = [\<lparr>level = Ok, msg = SocketOk\<rparr>, \<lparr>level = Ok, msg = RamOk\<rparr>]"
    using b by (simp add: bareBuild_result notesOf_def)
  ultimately show ?thesis
    using l n by blast
qed


subsection \<open>The wattage estimate\<close>






subsection \<open>The PSU check\<close>







subsection \<open>Missing attributes\<close>












lemma gapBuild_result:
  "checkCompatibility integerDigits gapBuild =
     Inr \<lparr>overall = Error,
          notes = [\<lparr>level = Error, msg = SocketMismatch ''AM5'' ''undefined''\<rparr>,
                   \<lparr>level = Ok, msg = RamOk\<rparr>,
                   \<lparr>level = Error, msg = NoPcieSlot\<rparr>,
                   \<lparr>level = Error, msg = CaseMismatch ''ITX'' ''undefined''\<rparr>,
                   \<lparr>level = Error, msg = CoolerMismatch ''AM5''\<rparr>]\<rparr>"
  by (simp add: demo_defs engine_defs sameValueZero_def)



section \<open>Properties of the import\<close>

subsection \<open>The header map\<close>











lemmas import_defs =
  rowToProduct_def headerMap_def getProp_def normalizeHeader_def isLowerAlnum_def asciiLower_def
  rawCategoryOf_def nameOf_def priceOf_def stockOf_def js_or_def js_addStr_def categoryOf_def
  CATEGORIES_def Let_def

subsection \<open>The category of a row\<close>

text \<open>
  C7. The statement holds for the headers \<^verbatim>\<open>Category\<close> and \<^verbatim>\<open>Type\<close> and fails for the Thai header:
  \<^verbatim>\<open>normalizeHeader\<close> deletes every character outside a to z and 0 to 9, so the Thai header
  becomes the empty key, the lookup of the Thai literal in the map finds nothing, the raw
  category is the text \<^verbatim>\<open>undefined\<close> and the row gets the default CPU. The same value under the
  header \<^verbatim>\<open>Category\<close>, in any case, gives GPU.
\<close>

theorem thai_category_header_lost:
  "normalizeHeader thaiCategory = []
   \<and> getProp (headerMap thaiRow) thaiCategory = Undefined
   \<and> rawCategoryOf integerDigits (headerMap thaiRow) = ''undefined''
   \<and> category (rowToProduct integerDigits exampleParse ''id1'' thaiRow) = CPU
   \<and> category (rowToProduct integerDigits exampleParse ''id2'' englishRow) = GPU"
  by (simp add: import_defs thaiRow_def englishRow_def thaiCategory_def)


subsection \<open>Price and stock\<close>





subsection \<open>The attributes column\<close>




lemma attributes_rowToProduct:
  "attributes (rowToProduct fmt parseEntries i row)
   = mergeAttributes parseEntries (aliasAttributes fmt (headerMap row))
       (getProp (headerMap row) ''attributes'')"
  by (simp add: rowToProduct_def Let_def)


lemmas alias_defs =
  aliasAttributes_def aliasPairs_def cellValue_def thaiSocket_def thaiRam_def thaiSize_def
  thaiBoardSupport_def thaiInterface_def thaiStoragePort_def thaiPower_def thaiSizeGb_def
  thaiCapacity_def thaiSocketSupport_def




text \<open>A list cell without a comma stays a string: the import stores \<open>importedCase\<close>'s attributes.\<close>

lemma caseRow_attributes:
  "attributes (rowToProduct integerDigits exampleParse ''sheet01'' caseRow)
   = attributes importedCase"
  by (simp add: attributes_rowToProduct mergeAttributes_def alias_defs headerMap_def getProp_def
      caseRow_def importedCase_def normalizeHeader_def isLowerAlnum_def asciiLower_def
      isDigitIn_def digitOf_def stringToNumber_def trim_def whiteSpace_def headLen_def
      decimalLiteral_def)

section \<open>Properties of the catalogue state\<close>

text \<open>
  C10. Deleting by identifier keeps exactly the products of the inventory with another
  identifier, in their order, and leaves the build as it is: a product selected in a category is
  still there, whole, after the product with its identifier has been deleted from the inventory.
\<close>

theorem deleteProduct_keeps_build:
  "inventory (deleteProduct i st) = filter (\<lambda>p. id_p p \<noteq> i) (inventory st)
   \<and> build (deleteProduct i st) = build st
   \<and> (build st c = Some p \<longrightarrow> build (deleteProduct (id_p p) st) c = Some p)
   \<and> build (deleteProduct (id_p q) (selectPart c (Some q) st)) c = Some q"
  by (simp add: deleteProduct_def selectPart_def)

theorem deleteProduct_keeps_build_witness:
  "build demoState CPU = Some ryzen5
   \<and> inventory (deleteProduct (id_p ryzen5) demoState) = [tufB650, neoeco550]
   \<and> build (deleteProduct (id_p ryzen5) demoState) CPU = Some ryzen5"
proof -
  have b: "build demoState CPU = Some ryzen5"
    by (simp add: demoState_def am5Build_def)
  have f: "filter (\<lambda>p. id_p p \<noteq> id_p ryzen5) (inventory demoState) = [tufB650, neoeco550]"
    by (simp add: demoState_def ryzen5_def tufB650_def neoeco550_def)
  note d = deleteProduct_keeps_build [of "id_p ryzen5" demoState CPU ryzen5]
  from d f have "inventory (deleteProduct (id_p ryzen5) demoState) = [tufB650, neoeco550]"
    by simp
  moreover from d b have "build (deleteProduct (id_p ryzen5) demoState) CPU = Some ryzen5"
    by blast
  ultimately show ?thesis
    using b by blast
qed

end
